theory Spec2Isabelle
  imports Complex_Main
begin

section \<open>The operation registry agent\<close>

text \<open>
  A model of \<^verbatim>\<open>packages/apollo-server-plugin-operation-registry/src/agent.ts\<close>.
  The class \<^verbatim>\<open>Agent\<close> becomes a record of its private fields; every method becomes a
  function that takes the agent and returns its result, the agent as the method left it
  and the list of effects the method had on its collaborators (console, cache, network,
  timers), in the order of the calls. A \<^verbatim>\<open>throw\<close> is the left summand of the result.
\<close>

subsection \<open>JavaScript values\<close>

text \<open>
  A number is \<^verbatim>\<open>NaN\<close>, an infinity or finite; every finite double is a rational.
  The two zeros are one: they are equal under \<^verbatim>\<open>===\<close> and both falsy.
\<close>

datatype js_number =
    NaN
  | Neg_Infinity
  | Finite rat
  | Pos_Infinity

text \<open>
  The values of the fields typed \<^verbatim>\<open>any\<close> (\<^verbatim>\<open>engine\<close>) and of whatever
  \<^verbatim>\<open>JSON.parse\<close> returns.
\<close>

datatype jsval =
    JUndefined
  | JNull
  | JBool bool
  | JNum js_number
  | JStr string
  | JArr "jsval list"
  | JObj "(string \<times> jsval) list"

datatype error =
    Schema_hash_missing      \<comment> \<open>\<^verbatim>\<open>Error('`schemaHash` must be passed to the Agent.')\<close>\<close>
  | Service_id_missing       \<comment> \<open>\<^verbatim>\<open>Error('`engine.serviceID` must be passed to the Agent.')\<close>\<close>
  | Type_error               \<comment> \<open>a property read on \<^verbatim>\<open>null\<close> or \<^verbatim>\<open>undefined\<close>\<close>
  | Unable_to_fetch string   \<comment> \<open>the error \<^verbatim>\<open>fetch\<close> rejected with, its message prefixed\<close>
  | Could_not_fetch string   \<comment> \<open>\<^verbatim>\<open>Error(`Could not fetch manifest ${await response.text()}`)\<close>\<close>
  | Unexpected_content_type string
  | Body_not_json            \<comment> \<open>\<^verbatim>\<open>response.json()\<close> rejected\<close>
  | Invalid_manifest_format  \<comment> \<open>\<^verbatim>\<open>Error('Invalid manifest format.')\<close>\<close>
  | Syntax_error             \<comment> \<open>\<^verbatim>\<open>JSON.parse\<close> threw\<close>

fun truthy :: "jsval \<Rightarrow> bool" where
  "truthy JUndefined = False"
| "truthy JNull = False"
| "truthy (JBool b) = b"
| "truthy (JNum n) = (n \<noteq> NaN \<and> n \<noteq> Finite 0)"
| "truthy (JStr s) = (s \<noteq> [])"
| "truthy (JArr xs) = True"
| "truthy (JObj kvs) = True"

fun typeof :: "jsval \<Rightarrow> string" where
  "typeof JUndefined = ''undefined''"
| "typeof JNull = ''object''"
| "typeof (JBool b) = ''boolean''"
| "typeof (JNum n) = ''number''"
| "typeof (JStr s) = ''string''"
| "typeof (JArr xs) = ''object''"
| "typeof (JObj kvs) = ''object''"

text \<open>
  Reading the property \<^verbatim>\<open>serviceID\<close> of a value: a \<^verbatim>\<open>TypeError\<close> on \<^verbatim>\<open>null\<close> and
  \<^verbatim>\<open>undefined\<close>, the stored value on an object that has the property, \<^verbatim>\<open>undefined\<close>
  on everything else (primitives and arrays have no property of that name).
\<close>

fun getProp :: "jsval \<Rightarrow> string \<Rightarrow> error + jsval" where
  "getProp JUndefined k = Inl Type_error"
| "getProp JNull k = Inl Type_error"
| "getProp (JObj kvs) k = (case map_of kvs k of None \<Rightarrow> Inr JUndefined | Some v \<Rightarrow> Inr v)"
| "getProp v k = Inr JUndefined"

subsection \<open>The agent's data\<close>

text \<open>
  \<^verbatim>\<open>interface AgentOptions\<close>. An optional or missing property is \<open>None\<close>. The
  \<^verbatim>\<open>cache\<close> is the host's object: the agent holds a reference only, and its calls on it
  are effects.
\<close>

record AgentOptions =
  debug :: "bool option"
  pollSeconds :: "int option"
  schemaHash :: "string option"
  engine :: jsval

record Operation =
  signature :: string
  document :: string

text \<open>
  What \<^verbatim>\<open>updateManifest\<close> may be handed at run time. The method tests its argument for
  truthiness, its \<^verbatim>\<open>version\<close> against \<^verbatim>\<open>1\<close> and its \<^verbatim>\<open>operations\<close> with
  \<^verbatim>\<open>Array.isArray\<close>, so the model keeps these three apart: a falsy argument, and a truthy
  one with the value its \<^verbatim>\<open>version\<close> property reads and with an \<^verbatim>\<open>operations\<close>
  property that is an array or is not. The elements of the array have their declared
  type, \<^verbatim>\<open>interface Operation\<close>, with two strings.
\<close>

datatype operations_arg =
    Operations_array "Operation list"
  | Operations_not_array

datatype manifest_arg =
    Manifest_falsy
  | Manifest_object jsval operations_arg

text \<open>
  A promise, as far as the agent looks at one: \<^verbatim>\<open>Promise.resolve()\<close> is already
  fulfilled, with \<^verbatim>\<open>undefined\<close>.
\<close>

datatype promise =
    Fulfilled jsval
  | Rejected error
  | Pending

definition Promise_resolve :: promise where
  "Promise_resolve = Fulfilled JUndefined"

type_synonym timer_handle = nat

record Agent =
  timer :: "timer_handle option"
  hashedServiceId :: "string option"
  requestInFlight :: "promise option"      \<comment> \<open>\<^verbatim>\<open>null\<close> is \<open>None\<close>\<close>
  lastSuccessfulCheck :: "int option"      \<comment> \<open>a \<^verbatim>\<open>Date\<close>, in milliseconds\<close>
  timesChecked :: nat                      \<comment> \<open>\<^verbatim>\<open>_timesChecked\<close>\<close>
  lastSuccessfulETag :: "jsval option"
  lastOperationSignatures :: "string list" \<comment> \<open>a \<^verbatim>\<open>Set\<close>, in insertion order\<close>
  options :: AgentOptions

subsection \<open>Effects\<close>

datatype message =
    Msg_checking string        \<comment> \<open>\<^verbatim>\<open>Checking for manifest changes at ${manifestUrl}\<close>\<close>
  | Msg_same                   \<comment> \<open>\<^verbatim>\<open>The published manifest was the same as the previous attempt.\<close>\<close>
  | Msg_adds string            \<comment> \<open>\<^verbatim>\<open>Incoming manifest ADDs: ${signature}\<close>\<close>
  | Msg_removes string         \<comment> \<open>\<^verbatim>\<open>Incoming manifest REMOVEs: ${signature}\<close>\<close>
  | Msg_loss_of_sync "int option"  \<comment> \<open>\<^verbatim>\<open>WARNING: More than 60 seconds has elapsed ...\<close>\<close>
  | Msg_could_not_begin error  \<comment> \<open>\<^verbatim>\<open>Apollo Server could not begin serving requests ...\<close>\<close>
  | Msg_error error            \<comment> \<open>\<^verbatim>\<open>err.message || err\<close>, logged by the interval's callback\<close>

record RequestInit =
  http_method :: string    \<comment> \<open>\<^verbatim>\<open>method\<close>\<close>
  timeout :: int
  if_none_match :: "jsval option"   \<comment> \<open>the only header the agent sets\<close>

datatype effect =
    Console_debug message
  | Console_warn message
  | Console_error message
  | Cache_set string string
  | Cache_delete string
  | Fetch string RequestInit
  | Set_interval timer_handle int
  | Clear_interval timer_handle

definition maybeLog :: "Agent \<Rightarrow> message \<Rightarrow> effect list" where
  "maybeLog a msg = (if debug (options a) = Some True then [Console_debug msg] else [])"

subsection \<open>The cache\<close>

text \<open>
  Modelled from the spec: \<^verbatim>\<open>getCacheKey\<close> is imported from \<^verbatim>\<open>./common\<close>, which is not
  among the sources. The specification has the agent treat keys as
  \<^verbatim>\<open>"apq:" + signature\<close>, and so does \<^verbatim>\<open>cacheKey\<close> of the engine variant of the agent.
\<close>

definition getCacheKey :: "string \<Rightarrow> string" where
  "getCacheKey sig = ''apq:'' @ sig"

text \<open>
  The host's cache as a store from keys to values. The agent does not wait for its
  \<^verbatim>\<open>set\<close> and \<^verbatim>\<open>delete\<close> calls; the store applies them in the order they were made.
\<close>

fun apply_effect :: "(string \<rightharpoonup> string) \<Rightarrow> effect \<Rightarrow> (string \<rightharpoonup> string)" where
  "apply_effect c (Cache_set k v) = c(k \<mapsto> v)"
| "apply_effect c (Cache_delete k) = c(k := None)"
| "apply_effect c e = c"

definition apply_effects :: "(string \<rightharpoonup> string) \<Rightarrow> effect list \<Rightarrow> (string \<rightharpoonup> string)" where
  "apply_effects c es = foldl apply_effect c es"

fun is_cache_call :: "effect \<Rightarrow> bool" where
  "is_cache_call (Cache_set k v) = True"
| "is_cache_call (Cache_delete k) = True"
| "is_cache_call e = False"

definition apq_key :: "string \<Rightarrow> bool" where
  "apq_key k = (take 4 k = ''apq:'')"

subsection \<open>updateManifest\<close>

text \<open>\<^verbatim>\<open>Set.prototype.add\<close>: an element already present keeps its place.\<close>

definition Set_add :: "string \<Rightarrow> string list \<Rightarrow> string list" where
  "Set_add x xs = (if x \<in> set xs then xs else xs @ [x])"

text \<open>
  The first loop, over \<^verbatim>\<open>manifest.operations\<close>: it fills \<^verbatim>\<open>incomingOperations\<close> and
  \<^verbatim>\<open>replacementSignatures\<close> and sets the cache entry of every signature that
  \<^verbatim>\<open>lastOperationSignatures\<close> does not have.
\<close>

fun add_loop ::
  "Agent \<Rightarrow> Operation list \<Rightarrow> (string \<rightharpoonup> string) \<Rightarrow> string list \<Rightarrow>
     (string \<rightharpoonup> string) \<times> string list \<times> effect list" where
  "add_loop a [] incoming replacement = (incoming, replacement, [])"
| "add_loop a (operation # rest) incoming replacement =
     (let incoming' = incoming(signature operation \<mapsto> document operation);
          replacement' = Set_add (signature operation) replacement;
          es = (if signature operation \<notin> set (lastOperationSignatures a)
                then maybeLog a (Msg_adds (signature operation)) @
                     [Cache_set (getCacheKey (signature operation)) (document operation)]
                else [])
      in case add_loop a rest incoming' replacement' of
           (incoming'', replacement'', es') \<Rightarrow> (incoming'', replacement'', es @ es'))"

text \<open>The second loop, over \<^verbatim>\<open>lastOperationSignatures\<close>.\<close>

fun remove_loop :: "Agent \<Rightarrow> (string \<rightharpoonup> string) \<Rightarrow> string list \<Rightarrow> effect list" where
  "remove_loop a incoming [] = []"
| "remove_loop a incoming (sig # rest) =
     (if incoming sig = None
      then maybeLog a (Msg_removes sig) @ [Cache_delete (getCacheKey sig)]
      else []) @ remove_loop a incoming rest"

definition updateManifest :: "manifest_arg \<Rightarrow> Agent \<Rightarrow> (error + unit) \<times> Agent \<times> effect list" where
  "updateManifest manifest a =
     (case manifest of
        Manifest_falsy \<Rightarrow> (Inl Invalid_manifest_format, a, [])
      | Manifest_object version operations \<Rightarrow>
          if version \<noteq> JNum (Finite 1) then (Inl Invalid_manifest_format, a, [])
          else (case operations of
                  Operations_not_array \<Rightarrow> (Inl Invalid_manifest_format, a, [])
                | Operations_array ops \<Rightarrow>
                    (case add_loop a ops Map.empty [] of
                       (incomingOperations, replacementSignatures, es) \<Rightarrow>
                         (Inr (),
                          a\<lparr>lastOperationSignatures := replacementSignatures\<rparr>,
                          es @ remove_loop a incomingOperations (lastOperationSignatures a)))))"

text \<open>A manifest that passes the shape test of \<^verbatim>\<open>updateManifest\<close>.\<close>

definition valid_manifest :: "Operation list \<Rightarrow> manifest_arg" where
  "valid_manifest ops = Manifest_object (JNum (Finite 1)) (Operations_array ops)"

subsection \<open>Construction\<close>

text \<open>
  The constructor copies the options and checks two of them. \<^verbatim>\<open>!this.options.schemaHash\<close>
  holds for a missing and for an empty string. The second test reads
  \<^verbatim>\<open>typeof engine\<close> and then \<^verbatim>\<open>typeof engine.serviceID\<close>; on \<^verbatim>\<open>null\<close>, whose
  \<^verbatim>\<open>typeof\<close> is \<^verbatim>\<open>'object'\<close>, the property read throws. The constructor calls no
  collaborator: its list of effects is empty.
\<close>

definition Agent_constructor :: "AgentOptions \<Rightarrow> (error + Agent) \<times> effect list" where
  "Agent_constructor opts =
     (if schemaHash opts = None \<or> schemaHash opts = Some [] then (Inl Schema_hash_missing, [])
      else if typeof (engine opts) \<noteq> ''object'' then (Inl Service_id_missing, [])
      else (case getProp (engine opts) ''serviceID'' of
              Inl err \<Rightarrow> (Inl err, [])
            | Inr serviceID \<Rightarrow>
                if typeof serviceID \<noteq> ''string'' then (Inl Service_id_missing, [])
                else (Inr \<lparr> timer = None, hashedServiceId = None, requestInFlight = None,
                           lastSuccessfulCheck = None, timesChecked = 0,
                           lastSuccessfulETag = None, lastOperationSignatures = [],
                           options = opts \<rparr>, [])))"

subsection \<open>Helpers of the agent\<close>

text \<open>
  The functions the agent calls whose code is not among the sources are parameters of
  the model: the two other functions it imports from \<^verbatim>\<open>./common\<close>, and the built-in
  \<^verbatim>\<open>JSON.parse\<close>, which returns a value or throws a \<^verbatim>\<open>SyntaxError\<close>. The
  properties below hold whatever these functions compute.
\<close>

record Externals =
  getOperationManifestUrl :: "string \<Rightarrow> string option \<Rightarrow> string"
  generateServiceIdHash :: "jsval \<Rightarrow> string"
  JSON_parse :: "string \<Rightarrow> error + jsval"

definition DEFAULT_POLL_SECONDS :: int where
  "DEFAULT_POLL_SECONDS = 30"

definition SYNC_WARN_TIME_SECONDS :: int where
  "SYNC_WARN_TIME_SECONDS = 60"

definition getHashedServiceId :: "Externals \<Rightarrow> Agent \<Rightarrow> (error + string) \<times> Agent" where
  "getHashedServiceId ext a =
     (case (case hashedServiceId a of
              None \<Rightarrow> None
            | Some hashed \<Rightarrow> if hashed \<noteq> [] then Some hashed else None) of
        Some hashed \<Rightarrow> (Inr hashed, a)
      | None \<Rightarrow>
          (case getProp (engine (options a)) ''serviceID'' of
             Inl err \<Rightarrow> (Inl err, a)
           | Inr serviceID \<Rightarrow>
               (Inr (generateServiceIdHash ext serviceID),
                a\<lparr>hashedServiceId := Some (generateServiceIdHash ext serviceID)\<rparr>)))"

definition pollSecondsOf :: "Agent \<Rightarrow> int" where
  "pollSecondsOf a =
     (case pollSeconds (options a) of
        None \<Rightarrow> DEFAULT_POLL_SECONDS
      | Some n \<Rightarrow> if n \<noteq> 0 then n else DEFAULT_POLL_SECONDS)"

text \<open>The comparison \<^verbatim>\<open>a > b\<close> of a number with a whole number.\<close>

fun js_greater :: "js_number \<Rightarrow> int \<Rightarrow> bool" where
  "js_greater NaN n = False"
| "js_greater Neg_Infinity n = False"
| "js_greater (Finite m) n = (m > of_int n)"
| "js_greater Pos_Infinity n = True"

text \<open>The argument \<open>now\<close> is \<^verbatim>\<open>new Date().getTime()\<close>, the clock at the time of the call.\<close>

definition timeSinceLastSuccessfulCheck :: "int \<Rightarrow> Agent \<Rightarrow> js_number" where
  "timeSinceLastSuccessfulCheck now a =
     (case lastSuccessfulCheck a of
        None \<Rightarrow> Neg_Infinity
      | Some t \<Rightarrow> Finite (of_int (now - t)))"

definition warnWhenLossOfSync :: "int \<Rightarrow> Agent \<Rightarrow> effect list" where
  "warnWhenLossOfSync now a =
     (if js_greater (timeSinceLastSuccessfulCheck now a) (SYNC_WARN_TIME_SECONDS * 1000)
      then [Console_warn (Msg_loss_of_sync (lastSuccessfulCheck a))]
      else [])"

subsection \<open>A JSON.parse for the examples\<close>

text \<open>
  The examples need a \<^verbatim>\<open>JSON.parse\<close> to run on. \<open>JSON_parse_string_literal\<close> is
  \<^verbatim>\<open>JSON.parse\<close> on the texts that are one string literal between optional white
  space, with the escapes of JSON (a character of the model is one byte, so \<^verbatim>\<open>\u\<close>
  escapes up to \<^verbatim>\<open>00FF\<close>). On every other text it answers with a
  \<^verbatim>\<open>SyntaxError\<close>, which is the answer of \<^verbatim>\<open>JSON.parse\<close> only where the text is
  no JSON text: the examples apply it to string literals only, and no property of the
  agent is stated in terms of it.
\<close>

definition is_ws :: "char \<Rightarrow> bool" where
  "is_ws c = (c = CHR 0x20 \<or> c = CHR 0x09 \<or> c = CHR 0x0A \<or> c = CHR 0x0D)"

definition hex_digit :: "char \<Rightarrow> nat option" where
  "hex_digit c =
     (let n = (of_char c :: nat)
      in if 48 \<le> n \<and> n \<le> 57 then Some (n - 48)
         else if 97 \<le> n \<and> n \<le> 102 then Some (n - 87)
         else if 65 \<le> n \<and> n \<le> 70 then Some (n - 55)
         else None)"

definition unescape :: "char \<Rightarrow> char option" where
  "unescape e =
     (if e = CHR 0x22 then Some (CHR 0x22)
      else if e = CHR 0x5C then Some (CHR 0x5C)
      else if e = CHR ''/'' then Some (CHR ''/'')
      else if e = CHR ''b'' then Some (CHR 0x08)
      else if e = CHR ''f'' then Some (CHR 0x0C)
      else if e = CHR ''n'' then Some (CHR 0x0A)
      else if e = CHR ''r'' then Some (CHR 0x0D)
      else if e = CHR ''t'' then Some (CHR 0x09)
      else None)"

definition prepend :: "char \<Rightarrow> (string \<times> string) option \<Rightarrow> (string \<times> string) option" where
  "prepend c r = (case r of None \<Rightarrow> None | Some (s, rest) \<Rightarrow> Some (c # s, rest))"

text \<open>
  The characters of a string literal after its opening quote: the decoded string and
  what follows the closing quote.
\<close>

fun string_chars :: "string \<Rightarrow> (string \<times> string) option" where
  "string_chars [] = None"
| "string_chars (c # cs) =
     (if c = CHR 0x22 then Some ([], cs)
      else if c = CHR 0x5C then
        (case cs of
           [] \<Rightarrow> None
         | e # cs' \<Rightarrow>
             if e = CHR ''u'' then
               (case cs' of
                  h1 # h2 # h3 # h4 # cs'' \<Rightarrow>
                    (case (hex_digit h1, hex_digit h2, hex_digit h3, hex_digit h4) of
                       (Some d1, Some d2, Some d3, Some d4) \<Rightarrow>
                         if ((d1 * 16 + d2) * 16 + d3) * 16 + d4 < 256
                         then prepend (char_of (d3 * 16 + d4)) (string_chars cs'')
                         else None
                     | _ \<Rightarrow> None)
                | _ \<Rightarrow> None)
             else (case unescape e of
                     None \<Rightarrow> None
                   | Some ch \<Rightarrow> prepend ch (string_chars cs')))
      else if (of_char c :: nat) < 32 then None
      else prepend c (string_chars cs))"

definition JSON_parse_string_literal :: "string \<Rightarrow> error + jsval" where
  "JSON_parse_string_literal text =
     (case dropWhile is_ws text of
        [] \<Rightarrow> Inl Syntax_error
      | c # cs \<Rightarrow>
          if c = CHR 0x22 then
            (case string_chars cs of
               None \<Rightarrow> Inl Syntax_error
             | Some (s, rest) \<Rightarrow>
                 if dropWhile is_ws rest = [] then Inr (JStr s) else Inl Syntax_error)
          else Inl Syntax_error)"

subsection \<open>tryUpdate\<close>

text \<open>
  What \<^verbatim>\<open>fetch\<close> resolves with, as far as the agent reads it. \<^verbatim>\<open>headers.get\<close> gives
  \<^verbatim>\<open>null\<close> for a header the response does not carry; \<^verbatim>\<open>text()\<close> and \<^verbatim>\<open>json()\<close>
  may reject. \<^verbatim>\<open>ok\<close> is node-fetch's: the status is in the range 200 to 299.
\<close>

record Response =
  status :: nat
  content_type :: "string option"
  etag :: "string option"
  body_text :: "error + string"
  body_json :: "error + manifest_arg"

definition ok :: "Response \<Rightarrow> bool" where
  "ok response = (200 \<le> status response \<and> status response < 300)"

text \<open>
  The network: what \<^verbatim>\<open>fetch\<close> settles with for a request, a rejection (with its
  message) or a response.
\<close>

type_synonym fetched = "string + Response"
type_synonym network = "string \<Rightarrow> RequestInit \<Rightarrow> fetched"

text \<open>
  \<^verbatim>\<open>tryUpdate\<close> is suspended while \<^verbatim>\<open>fetch\<close> is pending, and other calls on the agent
  may run meanwhile. The model has the method in two parts: up to the request, and from
  the settling of the request on.
\<close>

definition tryUpdate_request ::
  "Externals \<Rightarrow> Agent \<Rightarrow> (error + string \<times> RequestInit) \<times> Agent \<times> effect list" where
  "tryUpdate_request ext a =
     (case getHashedServiceId ext a of
        (Inl err, a1) \<Rightarrow> (Inl err, a1, [])
      | (Inr hashed, a1) \<Rightarrow>
          (let manifestUrl = getOperationManifestUrl ext hashed (schemaHash (options a1));
               a2 = a1\<lparr>timesChecked := Suc (timesChecked a1)\<rparr>;
               fetchOptions =
                 \<lparr> http_method = ''GET'',
                   timeout = pollSecondsOf a2 * 3 * 1000,
                   if_none_match =
                     (case lastSuccessfulETag a2 of
                        None \<Rightarrow> None
                      | Some tag \<Rightarrow> if truthy tag then Some tag else None) \<rparr>
           in (Inr (manifestUrl, fetchOptions), a2,
               maybeLog a1 (Msg_checking manifestUrl) @ [Fetch manifestUrl fetchOptions])))"

text \<open>
  The content type that fails the test
  \<^verbatim>\<open>contentType && contentType !== 'application/json'\<close>, if the header does.
\<close>

definition unexpected_content_type :: "string option \<Rightarrow> string option" where
  "unexpected_content_type contentType =
     (case contentType of
        None \<Rightarrow> None
      | Some ct \<Rightarrow> if ct \<noteq> [] \<and> ct \<noteq> ''application/json'' then Some ct else None)"

definition tryUpdate_response ::
  "Externals \<Rightarrow> fetched \<Rightarrow> Agent \<Rightarrow> (error + bool) \<times> Agent \<times> effect list" where
  "tryUpdate_response ext settled a =
     (case settled of
        Inl msg \<Rightarrow>
          (case getProp (engine (options a)) ''serviceID'' of
             Inl err \<Rightarrow> (Inl err, a, [])
           | Inr serviceID \<Rightarrow> (Inl (Unable_to_fetch msg), a, []))
      | Inr response \<Rightarrow>
          if status response = 304 then (Inr False, a, maybeLog a Msg_same)
          else if \<not> ok response then
            (case body_text response of
               Inl err \<Rightarrow> (Inl err, a, [])
             | Inr body \<Rightarrow> (Inl (Could_not_fetch body), a, []))
          else
            (case unexpected_content_type (content_type response) of
               Some contentType \<Rightarrow> (Inl (Unexpected_content_type contentType), a, [])
             | None \<Rightarrow>
                 (case body_json response of
                    Inl err \<Rightarrow> (Inl err, a, [])
                  | Inr manifest \<Rightarrow>
                      (case updateManifest manifest a of
                         (Inl err, a1, es) \<Rightarrow> (Inl err, a1, es)
                       | (Inr u, a1, es) \<Rightarrow>
                           (case etag response of
                              None \<Rightarrow> (Inr True, a1, es)
                            | Some receivedETag \<Rightarrow>
                                if receivedETag = [] then (Inr True, a1, es)
                                else (case JSON_parse ext receivedETag of
                                        Inl err \<Rightarrow> (Inl err, a1, es)
                                      | Inr tag \<Rightarrow>
                                          (Inr True, a1\<lparr>lastSuccessfulETag := Some tag\<rparr>,
                                           es)))))))"

definition tryUpdate :: "Externals \<Rightarrow> network \<Rightarrow> Agent \<Rightarrow> (error + bool) \<times> Agent \<times> effect list" where
  "tryUpdate ext fetch a =
     (case tryUpdate_request ext a of
        (Inl err, a1, es) \<Rightarrow> (Inl err, a1, es)
      | (Inr (manifestUrl, fetchOptions), a1, es) \<Rightarrow>
          (case tryUpdate_response ext (fetch manifestUrl fetchOptions) a1 of
             (result, a2, es2) \<Rightarrow> (result, a2, es @ es2)))"

subsection \<open>checkForUpdate\<close>

text \<open>
  The synchronous part of \<^verbatim>\<open>checkForUpdate\<close>, at clock \<open>now\<close>: the warning, then either
  the return of the marker that is set or the installation of a new one, which is
  \<^verbatim>\<open>Promise.resolve()\<close>.
\<close>

datatype check_call =
    Suppressed promise
  | Started

definition checkForUpdate_call :: "int \<Rightarrow> Agent \<Rightarrow> check_call \<times> Agent \<times> effect list" where
  "checkForUpdate_call now a =
     (case requestInFlight a of
        Some inFlight \<Rightarrow> (Suppressed inFlight, a, warnWhenLossOfSync now a)
      | None \<Rightarrow> (Started, a\<lparr>requestInFlight := Some Promise_resolve\<rparr>, warnWhenLossOfSync now a))"

text \<open>
  The two handlers chained behind \<^verbatim>\<open>tryUpdate\<close>, at clock \<open>now\<close>, and what the promise
  that \<^verbatim>\<open>checkForUpdate\<close> returned settles with.
\<close>

definition checkForUpdate_settle :: "int \<Rightarrow> (error + bool) \<Rightarrow> Agent \<Rightarrow> promise \<times> Agent" where
  "checkForUpdate_settle now outcome a =
     (case outcome of
        Inr result \<Rightarrow>
          (Fulfilled (JBool result), a\<lparr>lastSuccessfulCheck := Some now, requestInFlight := None\<rparr>)
      | Inl err \<Rightarrow> (Rejected err, a\<lparr>requestInFlight := None\<rparr>))"

text \<open>
  A whole call with nothing in between: called at \<open>now\<close>, settled at \<open>now'\<close>. The first
  component is what the caller's promise settles with; a suppressed caller's promise takes
  the state of the marker it was handed.
\<close>

definition checkForUpdate ::
  "Externals \<Rightarrow> int \<Rightarrow> network \<Rightarrow> int \<Rightarrow> Agent \<Rightarrow> promise \<times> Agent \<times> effect list" where
  "checkForUpdate ext now fetch now' a =
     (case checkForUpdate_call now a of
        (Suppressed inFlight, a1, es) \<Rightarrow> (inFlight, a1, es)
      | (Started, a1, es) \<Rightarrow>
          (case tryUpdate ext fetch a1 of
             (outcome, a2, es2) \<Rightarrow>
               (case checkForUpdate_settle now' outcome a2 of
                  (p, a3) \<Rightarrow> (p, a3, es @ es2))))"

subsection \<open>start and stop\<close>

text \<open>
  \<^verbatim>\<open>this.timer = this.timer || setInterval(...)\<close>; \<open>handle\<close> is the object
  \<^verbatim>\<open>setInterval\<close> returns when it is called.
\<close>

definition start_arm :: "timer_handle \<Rightarrow> Agent \<Rightarrow> Agent \<times> effect list" where
  "start_arm handle a =
     (case timer a of
        Some t \<Rightarrow> (a, [])
      | None \<Rightarrow> (a\<lparr>timer := Some handle\<rparr>, [Set_interval handle (pollSecondsOf a * 1000)]))"

definition start ::
  "Externals \<Rightarrow> int \<Rightarrow> network \<Rightarrow> int \<Rightarrow> timer_handle \<Rightarrow> Agent \<Rightarrow> Agent \<times> effect list" where
  "start ext now fetch now' handle a =
     (case checkForUpdate ext now fetch now' a of
        (p, a1, es) \<Rightarrow>
          (case start_arm handle a1 of
             (a2, es2) \<Rightarrow>
               (a2, es @ (case p of Rejected err \<Rightarrow> [Console_error (Msg_could_not_begin err)]
                                   | _ \<Rightarrow> []) @ es2)))"

definition stop :: "Agent \<Rightarrow> Agent \<times> effect list" where
  "stop a = (case timer a of Some t \<Rightarrow> (a, [Clear_interval t]) | None \<Rightarrow> (a, []))"

text \<open>The callback of the interval.\<close>

definition tick :: "Externals \<Rightarrow> int \<Rightarrow> network \<Rightarrow> int \<Rightarrow> Agent \<Rightarrow> Agent \<times> effect list" where
  "tick ext now fetch now' a =
     (case checkForUpdate ext now fetch now' a of
        (p, a1, es) \<Rightarrow>
          (a1, es @ (case p of Rejected err \<Rightarrow> [Console_error (Msg_error err)] | _ \<Rightarrow> [])))"




fun is_fetch :: "effect \<Rightarrow> bool" where
  "is_fetch (Fetch url init) = True"
| "is_fetch e = False"

subsection \<open>Interleaved calls\<close>

text \<open>
  The agent runs on one thread, and a method gives way to other calls only where it
  awaits. The steps below are the pieces of the methods between two such points, as far
  as they read or write the agent, the cache, the network or the timers; any
  interleaving of calls on one agent is a list of them. When \<^verbatim>\<open>tryUpdate\<close> throws
  before its request, the rejection handler of \<^verbatim>\<open>checkForUpdate\<close> runs in the same
  step.
\<close>

datatype step =
    Step_checkForUpdate_call int          \<comment> \<open>\<^verbatim>\<open>checkForUpdate\<close> up to its \<^verbatim>\<open>return\<close>\<close>
  | Step_tryUpdate_request int            \<comment> \<open>\<^verbatim>\<open>tryUpdate\<close> up to \<^verbatim>\<open>await fetch\<close>\<close>
  | Step_tryUpdate_settled fetched int    \<comment> \<open>the rest of \<^verbatim>\<open>tryUpdate\<close> and the two handlers\<close>
  | Step_start_arm timer_handle           \<comment> \<open>\<^verbatim>\<open>start\<close> after \<^verbatim>\<open>await pulse()\<close>\<close>
  | Step_stop
  | Step_updateManifest manifest_arg

fun perform :: "Externals \<Rightarrow> Agent \<Rightarrow> step \<Rightarrow> Agent \<times> effect list" where
  "perform ext a (Step_checkForUpdate_call now) =
     (case checkForUpdate_call now a of (r, a1, es) \<Rightarrow> (a1, es))"
| "perform ext a (Step_tryUpdate_request now) =
     (case tryUpdate_request ext a of
        (Inl err, a1, es) \<Rightarrow> (snd (checkForUpdate_settle now (Inl err) a1), es)
      | (Inr request, a1, es) \<Rightarrow> (a1, es))"
| "perform ext a (Step_tryUpdate_settled settled now) =
     (case tryUpdate_response ext settled a of
        (outcome, a1, es) \<Rightarrow> (snd (checkForUpdate_settle now outcome a1), es))"
| "perform ext a (Step_start_arm handle) = start_arm handle a"
| "perform ext a Step_stop = stop a"
| "perform ext a (Step_updateManifest manifest) =
     (case updateManifest manifest a of (r, a1, es) \<Rightarrow> (a1, es))"

fun run :: "Externals \<Rightarrow> Agent \<Rightarrow> step list \<Rightarrow> Agent \<times> effect list" where
  "run ext a [] = (a, [])"
| "run ext a (s # ss) =
     (case perform ext a s of
        (a1, es) \<Rightarrow> (case run ext a1 ss of (a2, es2) \<Rightarrow> (a2, es @ es2)))"

subsection \<open>Values for the examples\<close>

definition example_options :: AgentOptions where
  "example_options =
     \<lparr> debug = Some True, pollSeconds = None, schemaHash = Some ''abc123'',
       engine = JObj [(''serviceID'', JStr ''my-service'')] \<rparr>"

text \<open>The agent \<^verbatim>\<open>new Agent(example_options)\<close>.\<close>

definition example_agent :: Agent where
  "example_agent =
     \<lparr> timer = None, hashedServiceId = None, requestInFlight = None,
       lastSuccessfulCheck = None, timesChecked = 0, lastSuccessfulETag = None,
       lastOperationSignatures = [], options = example_options \<rparr>"

definition example_externals :: Externals where
  "example_externals =
     \<lparr> getOperationManifestUrl =
         (\<lambda>hashed hash. ''https://manifests.example/'' @ hashed @ ''/'' @ (case hash of None \<Rightarrow> [] | Some h \<Rightarrow> h)),
       generateServiceIdHash = (\<lambda>serviceID. ''0a1b2c''),
       JSON_parse = JSON_parse_string_literal \<rparr>"

definition operation_a :: Operation where
  "operation_a = \<lparr> signature = ''a'', document = ''docA'' \<rparr>"

definition operation_b :: Operation where
  "operation_b = \<lparr> signature = ''b'', document = ''docB'' \<rparr>"

text \<open>Responses, and networks that give one answer to every request.\<close>

definition response_304 :: Response where
  "response_304 =
     \<lparr> status = 304, content_type = None, etag = None,
       body_text = Inr [], body_json = Inl Body_not_json \<rparr>"

definition network_304 :: network where
  "network_304 = (\<lambda>url init. Inr response_304)"

definition network_down :: network where
  "network_down = (\<lambda>url init. Inl ''socket hang up'')"

text \<open>A response with a manifest and the header \<^verbatim>\<open>ETag: "abc"\<close>, quotes included.\<close>

definition response_tagged :: Response where
  "response_tagged =
     \<lparr> status = 200, content_type = Some ''application/json'',
       etag = Some [CHR 0x22, CHR ''a'', CHR ''b'', CHR ''c'', CHR 0x22],
       body_text = Inr [], body_json = Inr (valid_manifest [operation_a]) \<rparr>"

definition network_tagged :: network where
  "network_tagged = (\<lambda>url init. Inr response_tagged)"

text \<open>Options whose service identifier is the empty string.\<close>

definition options_empty_serviceID :: AgentOptions where
  "options_empty_serviceID =
     \<lparr> debug = None, pollSeconds = None, schemaHash = Some ''abc123'',
       engine = JObj [(''serviceID'', JStr [])] \<rparr>"

text \<open>
  The example agent after a call of \<^verbatim>\<open>checkForUpdate\<close> has begun a check and the
  request is pending.
\<close>

definition in_flight_agent :: Agent where
  "in_flight_agent =
     fst (run example_externals example_agent [Step_checkForUpdate_call 0, Step_tryUpdate_request 0])"



subsection \<open>Predicates of the properties\<close>



section \<open>Properties\<close>

lemmas example_defs = example_agent_def example_options_def operation_a_def operation_b_def
  valid_manifest_def updateManifest_def Set_add_def maybeLog_def getCacheKey_def apq_key_def
  apply_effects_def

lemmas agent_defs = checkForUpdate_def checkForUpdate_call_def checkForUpdate_settle_def
  tryUpdate_def tryUpdate_request_def tryUpdate_response_def getHashedServiceId_def
  warnWhenLossOfSync_def timeSinceLastSuccessfulCheck_def pollSecondsOf_def
  DEFAULT_POLL_SECONDS_def SYNC_WARN_TIME_SECONDS_def Promise_resolve_def
  start_def start_arm_def stop_def Let_def unexpected_content_type_def

subsection \<open>The two loops of updateManifest\<close>

lemma add_loop_Cons_incoming:
  "fst (add_loop a (operation # rest) inc rep) =
   fst (add_loop a rest (inc(signature operation \<mapsto> document operation)) (Set_add (signature operation) rep))"
  by (simp add: Let_def split: prod.splits)

lemma add_loop_Cons_replacement:
  "fst (snd (add_loop a (operation # rest) inc rep)) =
   fst (snd (add_loop a rest (inc(signature operation \<mapsto> document operation)) (Set_add (signature operation) rep)))"
  by (simp add: Let_def split: prod.splits)

lemma add_loop_Cons_effects:
  "snd (snd (add_loop a (operation # rest) inc rep)) =
   (if signature operation \<notin> set (lastOperationSignatures a)
    then maybeLog a (Msg_adds (signature operation)) @
         [Cache_set (getCacheKey (signature operation)) (document operation)]
    else []) @
   snd (snd (add_loop a rest (inc(signature operation \<mapsto> document operation)) (Set_add (signature operation) rep)))"
  by (simp add: Let_def split: prod.splits)

lemma add_loop_incoming: "fst (add_loop a ops inc rep) k = None \<longleftrightarrow> inc k = None \<and> k \<notin> signature ` set ops"
proof (induction ops arbitrary: inc rep)
  case Nil
  show ?case by simp
next
  case (Cons operation rest)
  show ?case unfolding add_loop_Cons_incoming Cons.IH by auto
qed

lemma add_loop_replacement: "set (fst (snd (add_loop a ops inc rep))) = set rep \<union> signature ` set ops"
proof (induction ops arbitrary: inc rep)
  case Nil
  show ?case by simp
next
  case (Cons operation rest)
  show ?case unfolding add_loop_Cons_replacement Cons.IH by (auto simp: Set_add_def)
qed

lemma add_loop_distinct: "distinct rep \<Longrightarrow> distinct (fst (snd (add_loop a ops inc rep)))"
proof (induction ops arbitrary: inc rep)
  case Nil
  then show ?case by simp
next
  case (Cons operation rest)
  have "distinct (Set_add (signature operation) rep)"
    using Cons.prems by (simp add: Set_add_def)
  then show ?case unfolding add_loop_Cons_replacement by (rule Cons.IH)
qed

lemma add_loop_calls: "filter is_cache_call (snd (snd (add_loop a ops inc rep))) =
   map (\<lambda>op. Cache_set (getCacheKey (signature op)) (document op)) (filter (\<lambda>op. signature op \<notin> set (lastOperationSignatures a)) ops)"
proof (induction ops arbitrary: inc rep)
  case Nil
  show ?case by simp
next
  case (Cons operation rest)
  show ?case unfolding add_loop_Cons_effects by (simp add: Cons.IH maybeLog_def)
qed

lemma remove_loop_calls: "filter is_cache_call (remove_loop a inc ss) =
   map (\<lambda>s. Cache_delete (getCacheKey s)) (filter (\<lambda>s. inc s = None) ss)"
  by (induction ss) (auto simp: maybeLog_def)

subsection \<open>The cache after updateManifest\<close>

lemma apply_effects_filter: "apply_effects c (filter is_cache_call es) = apply_effects c es"
  unfolding apply_effects_def
proof (induction es arbitrary: c)
  case Nil show ?case by simp
next
  case (Cons e es)
  have "foldl apply_effect (apply_effect c e) (filter is_cache_call es) =
        foldl apply_effect (apply_effect c e) es"
    by (rule Cons.IH)
  then show ?case by (cases e) simp_all
qed

lemma apply_effects_append: "apply_effects c (es @ es') = apply_effects (apply_effects c es) es'"
  by (simp add: apply_effects_def)

lemma dom_apply_sets:
  "dom (apply_effects c (map (\<lambda>op. Cache_set (getCacheKey (signature op)) (document op)) xs)) =
   dom c \<union> getCacheKey ` signature ` set xs"
  unfolding apply_effects_def
  by (induction xs arbitrary: c) auto

lemma dom_apply_deletes:
  "dom (apply_effects c (map (\<lambda>s. Cache_delete (getCacheKey s)) ss)) = dom c - getCacheKey ` set ss"
  unfolding apply_effects_def
  by (induction ss arbitrary: c) auto

lemma getCacheKey_inj: "getCacheKey s = getCacheKey t \<longleftrightarrow> s = t"
  by (simp add: getCacheKey_def)

lemma apq_key_getCacheKey: "apq_key (getCacheKey s)"
  by (simp add: getCacheKey_def apq_key_def)

lemma updateManifest_valid:
  "updateManifest (valid_manifest ops) a =
    (Inr (), a\<lparr>lastOperationSignatures := fst (snd (add_loop a ops Map.empty []))\<rparr>,
     snd (snd (add_loop a ops Map.empty [])) @
     remove_loop a (fst (add_loop a ops Map.empty [])) (lastOperationSignatures a))"
  by (simp add: updateManifest_def valid_manifest_def split: prod.splits)

lemma updateManifest_calls:
  "filter is_cache_call (snd (snd (updateManifest (valid_manifest ops) a))) =
     map (\<lambda>op. Cache_set (getCacheKey (signature op)) (document op))
         (filter (\<lambda>op. signature op \<notin> set (lastOperationSignatures a)) ops) @
     map (\<lambda>s. Cache_delete (getCacheKey s))
         (filter (\<lambda>s. s \<notin> signature ` set ops) (lastOperationSignatures a))"
  by (simp add: updateManifest_valid add_loop_calls remove_loop_calls add_loop_incoming)

lemma updateManifest_signatures:
  "set (lastOperationSignatures (fst (snd (updateManifest (valid_manifest ops) a)))) = signature ` set ops"
  by (simp add: updateManifest_valid add_loop_replacement)

lemma updateManifest_dom:
  "dom (apply_effects c (snd (snd (updateManifest (valid_manifest ops) a)))) =
     (dom c \<union> getCacheKey ` (signature ` set ops - set (lastOperationSignatures a)))
       - getCacheKey ` (set (lastOperationSignatures a) - signature ` set ops)"
proof -
  have "dom (apply_effects c (snd (snd (updateManifest (valid_manifest ops) a)))) =
        dom (apply_effects c (filter is_cache_call (snd (snd (updateManifest (valid_manifest ops) a)))))"
    by (simp add: apply_effects_filter)
  also have "\<dots> = (dom c \<union> getCacheKey ` signature ` set (filter (\<lambda>op. signature op \<notin> set (lastOperationSignatures a)) ops))
       - getCacheKey ` set (filter (\<lambda>s. s \<notin> signature ` set ops) (lastOperationSignatures a))"
    unfolding updateManifest_calls apply_effects_append dom_apply_deletes dom_apply_sets ..
  also have "\<dots> = (dom c \<union> getCacheKey ` (signature ` set ops - set (lastOperationSignatures a)))
       - getCacheKey ` (set (lastOperationSignatures a) - signature ` set ops)"
    by auto
  finally show ?thesis .
qed

lemma updateManifest_invariant:
  assumes "{k \<in> dom c. apq_key k} = getCacheKey ` set (lastOperationSignatures a)"
  shows "{k \<in> dom (apply_effects c (snd (snd (updateManifest (valid_manifest ops) a)))). apq_key k} =
         getCacheKey ` signature ` set ops"
proof -
  let ?K = "set (lastOperationSignatures a)" and ?S = "signature ` set ops"
  have "{k \<in> (dom c \<union> getCacheKey ` (?S - ?K)) - getCacheKey ` (?K - ?S). apq_key k} =
        ({k \<in> dom c. apq_key k} \<union> getCacheKey ` (?S - ?K)) - getCacheKey ` (?K - ?S)"
    using apq_key_getCacheKey by auto
  also have "\<dots> = (getCacheKey ` ?K \<union> getCacheKey ` (?S - ?K)) - getCacheKey ` (?K - ?S)"
    by (simp only: assms)
  also have "\<dots> = getCacheKey ` ?S"
    by (auto simp: getCacheKey_inj)
  finally show ?thesis by (simp only: updateManifest_dom)
qed

subsection \<open>Reconciliation\<close>

text \<open>
  Claim C1. Two valid manifests are applied one after the other, to an agent and a cache
  that agree: the \<^verbatim>\<open>apq:\<close> keys of the cache are the keys of the agent's known
  signatures (as for a new agent and a cache the agent has not written to). Then both
  calls succeed; the \<^verbatim>\<open>apq:\<close> keys of the cache after the second call are exactly
  the keys of the second manifest's signatures; the second call sets the entry of every
  signature of its manifest that was not known, deletes the entry of every known
  signature its manifest does not have, and makes no other call on the cache; and the
  known signatures are then the signatures of the second manifest.
\<close>

theorem updateManifest_sequence_cache_keys:
  assumes "{k \<in> dom c. apq_key k} = getCacheKey ` set (lastOperationSignatures a)"
  shows "case updateManifest (valid_manifest ops1) a of (r1, a1, es1) \<Rightarrow>
         case updateManifest (valid_manifest ops2) a1 of (r2, a2, es2) \<Rightarrow>
           r1 = Inr () \<and> r2 = Inr () \<and>
           {k \<in> dom (apply_effects c (es1 @ es2)). apq_key k} = getCacheKey ` signature ` set ops2 \<and>
           (\<forall>operation \<in> set ops2. signature operation \<notin> set (lastOperationSignatures a1) \<longrightarrow>
              Cache_set (getCacheKey (signature operation)) (document operation) \<in> set es2) \<and>
           (\<forall>sig \<in> set (lastOperationSignatures a1). sig \<notin> signature ` set ops2 \<longrightarrow>
              Cache_delete (getCacheKey sig) \<in> set es2) \<and>
           (\<forall>e \<in> set es2. is_cache_call e \<longrightarrow>
              (\<exists>operation \<in> set ops2. signature operation \<notin> set (lastOperationSignatures a1) \<and>
                 e = Cache_set (getCacheKey (signature operation)) (document operation)) \<or>
              (\<exists>sig \<in> set (lastOperationSignatures a1). sig \<notin> signature ` set ops2 \<and>
                 e = Cache_delete (getCacheKey sig))) \<and>
           set (lastOperationSignatures a2) = signature ` set ops2 \<and>
           distinct (lastOperationSignatures a2)"
proof -
  obtain r1 a1 es1 where u1: "updateManifest (valid_manifest ops1) a = (r1, a1, es1)"
    by (cases "updateManifest (valid_manifest ops1) a") auto
  obtain r2 a2 es2 where u2: "updateManifest (valid_manifest ops2) a1 = (r2, a2, es2)"
    by (cases "updateManifest (valid_manifest ops2) a1") auto
  have r1: "r1 = Inr ()" using u1 by (simp add: updateManifest_valid)
  have r2: "r2 = Inr ()" using u2 by (simp add: updateManifest_valid)
  have es1: "es1 = snd (snd (updateManifest (valid_manifest ops1) a))" using u1 by simp
  have a1: "a1 = fst (snd (updateManifest (valid_manifest ops1) a))" using u1 by simp
  have es2: "es2 = snd (snd (updateManifest (valid_manifest ops2) a1))" using u2 by simp
  have a2: "a2 = fst (snd (updateManifest (valid_manifest ops2) a1))" using u2 by simp
  have inv1: "{k \<in> dom (apply_effects c es1). apq_key k} = getCacheKey ` set (lastOperationSignatures a1)"
    unfolding es1 a1 updateManifest_signatures by (rule updateManifest_invariant [OF assms])
  have keys: "{k \<in> dom (apply_effects c (es1 @ es2)). apq_key k} = getCacheKey ` signature ` set ops2"
    unfolding apply_effects_append es2 by (rule updateManifest_invariant [OF inv1])
  have calls: "filter is_cache_call es2 =
     map (\<lambda>op. Cache_set (getCacheKey (signature op)) (document op))
         (filter (\<lambda>op. signature op \<notin> set (lastOperationSignatures a1)) ops2) @
     map (\<lambda>s. Cache_delete (getCacheKey s))
         (filter (\<lambda>s. s \<notin> signature ` set ops2) (lastOperationSignatures a1))"
    unfolding es2 by (rule updateManifest_calls)
  have mem: "\<And>e. e \<in> set es2 \<and> is_cache_call e \<longleftrightarrow>
     (\<exists>operation \<in> set ops2. signature operation \<notin> set (lastOperationSignatures a1) \<and>
                 e = Cache_set (getCacheKey (signature operation)) (document operation)) \<or>
              (\<exists>sig \<in> set (lastOperationSignatures a1). sig \<notin> signature ` set ops2 \<and>
                 e = Cache_delete (getCacheKey sig))"
  proof -
    fix e
    have "e \<in> set es2 \<and> is_cache_call e \<longleftrightarrow> e \<in> set (filter is_cache_call es2)" by auto
    also have "\<dots> \<longleftrightarrow> (\<exists>operation \<in> set ops2. signature operation \<notin> set (lastOperationSignatures a1) \<and>
                 e = Cache_set (getCacheKey (signature operation)) (document operation)) \<or>
              (\<exists>sig \<in> set (lastOperationSignatures a1). sig \<notin> signature ` set ops2 \<and>
                 e = Cache_delete (getCacheKey sig))"
      unfolding calls by auto
    finally show "e \<in> set es2 \<and> is_cache_call e \<longleftrightarrow>
     (\<exists>operation \<in> set ops2. signature operation \<notin> set (lastOperationSignatures a1) \<and>
                 e = Cache_set (getCacheKey (signature operation)) (document operation)) \<or>
              (\<exists>sig \<in> set (lastOperationSignatures a1). sig \<notin> signature ` set ops2 \<and>
                 e = Cache_delete (getCacheKey sig))" .
  qed
  have sets: "\<forall>operation \<in> set ops2. signature operation \<notin> set (lastOperationSignatures a1) \<longrightarrow>
              Cache_set (getCacheKey (signature operation)) (document operation) \<in> set es2"
    using mem by blast
  have dels: "\<forall>sig \<in> set (lastOperationSignatures a1). sig \<notin> signature ` set ops2 \<longrightarrow>
              Cache_delete (getCacheKey sig) \<in> set es2"
    using mem by blast
  have only: "\<forall>e \<in> set es2. is_cache_call e \<longrightarrow>
              (\<exists>operation \<in> set ops2. signature operation \<notin> set (lastOperationSignatures a1) \<and>
                 e = Cache_set (getCacheKey (signature operation)) (document operation)) \<or>
              (\<exists>sig \<in> set (lastOperationSignatures a1). sig \<notin> signature ` set ops2 \<and>
                 e = Cache_delete (getCacheKey sig))"
    using mem by blast
  have known: "set (lastOperationSignatures a2) = signature ` set ops2"
    unfolding a2 by (rule updateManifest_signatures)
  have dist: "distinct (lastOperationSignatures a2)"
    unfolding a2 by (simp add: updateManifest_valid add_loop_distinct)
  show ?thesis
    unfolding u1 u2 prod.case
    using r1 r2 keys sets dels only known dist by blast
qed

text \<open>
  The scenario of the specification: the manifest with \<^verbatim>\<open>a\<close>, then the manifest with
  \<^verbatim>\<open>b\<close>, on a new agent and an empty cache.
\<close>

theorem updateManifest_sequence_cache_keys_witness:
  "{k \<in> dom (Map.empty :: string \<rightharpoonup> string). apq_key k} =
     getCacheKey ` set (lastOperationSignatures example_agent) \<and>
   {k \<in> dom (apply_effects Map.empty
        (snd (snd (updateManifest (valid_manifest [operation_a]) example_agent)) @
         snd (snd (updateManifest (valid_manifest [operation_b])
           (fst (snd (updateManifest (valid_manifest [operation_a]) example_agent))))))). apq_key k}
     = {''apq:b''} \<and>
   apply_effects Map.empty
        (snd (snd (updateManifest (valid_manifest [operation_a]) example_agent)) @
         snd (snd (updateManifest (valid_manifest [operation_b])
           (fst (snd (updateManifest (valid_manifest [operation_a]) example_agent)))))) ''apq:b''
     = Some ''docB''"
proof -
  have h: "{k \<in> dom (Map.empty :: string \<rightharpoonup> string). apq_key k} =
     getCacheKey ` set (lastOperationSignatures example_agent)"
    by (simp add: example_agent_def)
  have k: "getCacheKey ` signature ` set [operation_b] = {''apq:b''}"
    by (simp add: example_defs)
  have v: "apply_effects Map.empty
        (snd (snd (updateManifest (valid_manifest [operation_a]) example_agent)) @
         snd (snd (updateManifest (valid_manifest [operation_b])
           (fst (snd (updateManifest (valid_manifest [operation_a]) example_agent)))))) ''apq:b''
     = Some ''docB''"
    by (simp add: example_defs)
  show ?thesis
    using h k v updateManifest_sequence_cache_keys [OF h, where ?ops1.0 = "[operation_a]" and ?ops2.0 = "[operation_b]"]
    by (simp add: case_prod_beta)
qed

text \<open>
  Claim C2. Applying a valid manifest a second time makes no call on the cache, neither
  \<^verbatim>\<open>set\<close> nor \<^verbatim>\<open>delete\<close>. More generally, a signature that is known and is in
  the incoming manifest has its entry neither deleted nor set, whatever document the
  manifest gives for it.
\<close>

theorem updateManifest_known_signature_no_write:
  "(case updateManifest (valid_manifest ops) a of (r1, a1, es1) \<Rightarrow>
      filter is_cache_call (snd (snd (updateManifest (valid_manifest ops) a1))) = []) \<and>
   (\<forall>sig. sig \<in> set (lastOperationSignatures a) \<and> sig \<in> signature ` set ops \<longrightarrow>
      (\<forall>e \<in> set (snd (snd (updateManifest (valid_manifest ops) a))).
         e \<noteq> Cache_delete (getCacheKey sig) \<and> (\<forall>doc. e \<noteq> Cache_set (getCacheKey sig) doc)))"
proof -
  have twice: "filter is_cache_call (snd (snd (updateManifest (valid_manifest ops)
                 (fst (snd (updateManifest (valid_manifest ops) a)))))) = []"
    unfolding updateManifest_calls by (simp add: filter_empty_conv updateManifest_signatures)
  have known: "e \<noteq> Cache_delete (getCacheKey sig) \<and> (\<forall>doc. e \<noteq> Cache_set (getCacheKey sig) doc)"
    if sig: "sig \<in> set (lastOperationSignatures a)" "sig \<in> signature ` set ops"
      and e: "e \<in> set (snd (snd (updateManifest (valid_manifest ops) a)))" for sig e
  proof (cases "is_cache_call e")
    case True
    with e have "e \<in> set (filter is_cache_call (snd (snd (updateManifest (valid_manifest ops) a))))"
      by simp
    then show ?thesis
      unfolding updateManifest_calls using sig by (auto simp: getCacheKey_inj)
  next
    case False
    then show ?thesis by auto
  qed
  show ?thesis using twice known by (auto simp: case_prod_beta)
qed

theorem updateManifest_known_signature_no_write_witness:
  "''a'' \<in> set (lastOperationSignatures (example_agent\<lparr>lastOperationSignatures := [''a'']\<rparr>)) \<and>
   ''a'' \<in> signature ` set [\<lparr> signature = ''a'', document = ''docA2'' \<rparr>] \<and>
   Cache_set (getCacheKey ''a'') ''docA2'' \<notin>
     set (snd (snd (updateManifest (valid_manifest [\<lparr> signature = ''a'', document = ''docA2'' \<rparr>])
                      (example_agent\<lparr>lastOperationSignatures := [''a'']\<rparr>)))) \<and>
   snd (snd (updateManifest (valid_manifest [\<lparr> signature = ''a'', document = ''docA2'' \<rparr>])
                      (example_agent\<lparr>lastOperationSignatures := [''a'']\<rparr>))) = []"
proof -
  have e: "snd (snd (updateManifest (valid_manifest [\<lparr> signature = ''a'', document = ''docA2'' \<rparr>])
                      (example_agent\<lparr>lastOperationSignatures := [''a'']\<rparr>))) = []"
    by (simp add: example_defs)
  show ?thesis
    using e updateManifest_known_signature_no_write
      [of "[\<lparr> signature = ''a'', document = ''docA2'' \<rparr>]"
          "example_agent\<lparr>lastOperationSignatures := [''a'']\<rparr>"]
    by simp
qed

text \<open>
  Claim C3. A manifest that is falsy, whose version is not the number 1 or whose
  operations are not an array is refused with the error "Invalid manifest format."; the
  agent, its known signatures included, is as before, and no call is made on the cache,
  which is as before.
\<close>

theorem updateManifest_invalid_format:
  assumes "manifest = Manifest_falsy \<or>
           (\<exists>version operations. manifest = Manifest_object version operations \<and>
              (version \<noteq> JNum (Finite 1) \<or> operations = Operations_not_array))"
  shows "updateManifest manifest a = (Inl Invalid_manifest_format, a, []) \<and>
         apply_effects c (snd (snd (updateManifest manifest a))) = c"
  using assms by (auto simp: updateManifest_def apply_effects_def)

theorem updateManifest_invalid_format_witness:
  "updateManifest (Manifest_object (JNum (Finite 2)) (Operations_array [operation_a])) example_agent =
     (Inl Invalid_manifest_format, example_agent, []) \<and>
   updateManifest (Manifest_object (JNum (Finite 1)) Operations_not_array) example_agent =
     (Inl Invalid_manifest_format, example_agent, []) \<and>
   updateManifest Manifest_falsy example_agent = (Inl Invalid_manifest_format, example_agent, [])"
  using updateManifest_invalid_format [of "Manifest_object (JNum (Finite 2)) (Operations_array [operation_a])" example_agent Map.empty]
    updateManifest_invalid_format [of "Manifest_object (JNum (Finite 1)) Operations_not_array" example_agent Map.empty]
    updateManifest_invalid_format [of Manifest_falsy example_agent Map.empty]
  by simp

subsection \<open>Calls while a check is in flight\<close>

lemma in_flight_agent_eq:
  "in_flight_agent = example_agent\<lparr>hashedServiceId := Some ''0a1b2c'',
      requestInFlight := Some (Fulfilled JUndefined), timesChecked := 1\<rparr>"
  by (simp add: in_flight_agent_def agent_defs example_defs example_externals_def)

lemma warn_no_fetch: "filter is_fetch (warnWhenLossOfSync now a) = []"
  by (simp add: warnWhenLossOfSync_def)

lemma marker_perform:
  assumes "requestInFlight a = None \<or> requestInFlight a = Some (Fulfilled JUndefined)"
  shows "requestInFlight (fst (perform ext a s)) = None \<or>
         requestInFlight (fst (perform ext a s)) = Some (Fulfilled JUndefined)"
proof (cases s)
  case (Step_checkForUpdate_call now)
  then show ?thesis using assms
    by (auto simp: checkForUpdate_call_def Promise_resolve_def split: option.splits)
next
  case (Step_tryUpdate_request now)
  then show ?thesis using assms
    by (auto simp: tryUpdate_request_def getHashedServiceId_def Let_def checkForUpdate_settle_def
          split: sum.splits option.splits if_splits)
next
  case (Step_tryUpdate_settled settled now)
  then show ?thesis
    by (auto simp: checkForUpdate_settle_def split: sum.splits prod.splits)
next
  case (Step_start_arm h)
  then show ?thesis using assms by (auto simp: start_arm_def split: option.splits)
next
  case Step_stop
  then show ?thesis using assms by (auto simp: stop_def split: option.splits)
next
  case (Step_updateManifest m)
  then show ?thesis using assms
    by (auto simp: updateManifest_def split: manifest_arg.splits operations_arg.splits prod.splits)
qed

lemma marker_run:
  "requestInFlight a = None \<or> requestInFlight a = Some (Fulfilled JUndefined) \<Longrightarrow>
   requestInFlight (fst (run ext a steps)) = None \<or>
   requestInFlight (fst (run ext a steps)) = Some (Fulfilled JUndefined)"
proof (induction steps arbitrary: a)
  case Nil
  then show ?case by simp
next
  case (Cons s steps)
  have "requestInFlight (fst (run ext (fst (perform ext a s)) steps)) = None \<or>
        requestInFlight (fst (run ext (fst (perform ext a s)) steps)) = Some (Fulfilled JUndefined)"
    by (rule Cons.IH) (rule marker_perform [OF Cons.prems])
  then show ?case by (simp add: case_prod_beta)
qed

lemma constructor_fields:
  "fst (Agent_constructor opts) = Inr a0 \<Longrightarrow>
   a0 = \<lparr> timer = None, hashedServiceId = None, requestInFlight = None,
          lastSuccessfulCheck = None, timesChecked = 0,
          lastSuccessfulETag = None, lastOperationSignatures = [],
          options = opts \<rparr>"
  by (auto simp: Agent_constructor_def split: if_splits sum.splits)

text \<open>
  Claim C4, amended. In a state where a check is in flight, a call of
  \<^verbatim>\<open>checkForUpdate\<close> returns the marker that is set, leaves the agent (the counter of
  checks included) as it is and has no effect but the warning, so no request is made.
  The marker is never the promise of the check: in every state that an interleaving of
  calls reaches from a new agent, a marker that is set is \<^verbatim>\<open>Promise.resolve()\<close>,
  fulfilled with \<^verbatim>\<open>undefined\<close>, and that is what the suppressed caller gets.
\<close>

theorem checkForUpdate_in_flight_suppressed:
  "(requestInFlight a = Some inFlight \<longrightarrow>
      checkForUpdate ext now fetch now' a = (inFlight, a, warnWhenLossOfSync now a) \<and>
      filter is_fetch (warnWhenLossOfSync now a) = []) \<and>
   (fst (Agent_constructor opts) = Inr a0 \<and>
    requestInFlight (fst (run ext a0 steps)) = Some inFlight' \<longrightarrow>
      inFlight' = Fulfilled JUndefined)"
proof -
  have one: "checkForUpdate ext now fetch now' a = (inFlight, a, warnWhenLossOfSync now a)"
    if "requestInFlight a = Some inFlight"
    using that by (simp add: checkForUpdate_def checkForUpdate_call_def)
  have two: "inFlight' = Fulfilled JUndefined"
    if c: "fst (Agent_constructor opts) = Inr a0"
      and r: "requestInFlight (fst (run ext a0 steps)) = Some inFlight'"
  proof -
    have "requestInFlight a0 = None" using constructor_fields [OF c] by simp
    then have "requestInFlight (fst (run ext a0 steps)) = None \<or>
               requestInFlight (fst (run ext a0 steps)) = Some (Fulfilled JUndefined)"
      by (intro marker_run) simp
    with r show ?thesis by simp
  qed
  show ?thesis using one two warn_no_fetch by blast
qed

theorem checkForUpdate_in_flight_suppressed_witness:
  "fst (Agent_constructor example_options) = Inr example_agent \<and>
   requestInFlight (fst (run example_externals example_agent
      [Step_checkForUpdate_call 0, Step_tryUpdate_request 0])) = Some (Fulfilled JUndefined) \<and>
   requestInFlight in_flight_agent = Some (Fulfilled JUndefined) \<and>
   checkForUpdate example_externals 70000 (\<lambda>url init. Inl ''unused'') 70001 in_flight_agent =
     (Fulfilled JUndefined, in_flight_agent, []) \<and>
   timesChecked (fst (snd (checkForUpdate example_externals 70000 (\<lambda>url init. Inl ''unused'') 70001 in_flight_agent))) =
     timesChecked in_flight_agent"
proof -
  have c: "fst (Agent_constructor example_options) = Inr example_agent"
    by (simp add: Agent_constructor_def example_agent_def example_options_def)
  obtain p where p: "requestInFlight in_flight_agent = Some p"
    by (simp add: in_flight_agent_eq)
  have r: "requestInFlight (fst (run example_externals example_agent
      [Step_checkForUpdate_call 0, Step_tryUpdate_request 0])) = Some p"
    using p by (simp only: in_flight_agent_def)
  have m: "p = Fulfilled JUndefined"
    using c r checkForUpdate_in_flight_suppressed
      [where opts = example_options and ?a0.0 = example_agent and ext = example_externals
        and steps = "[Step_checkForUpdate_call 0, Step_tryUpdate_request 0]" and inFlight' = p,
       THEN conjunct2]
    by (simp only:)
  have w: "warnWhenLossOfSync 70000 in_flight_agent = []"
    by (simp add: in_flight_agent_eq agent_defs example_defs)
  have i: "requestInFlight in_flight_agent = Some (Fulfilled JUndefined)"
    using p m by simp
  have k: "checkForUpdate example_externals 70000 (\<lambda>url init. Inl ''unused'') 70001 in_flight_agent =
     (Fulfilled JUndefined, in_flight_agent, [])"
    using i w checkForUpdate_in_flight_suppressed
      [where a = in_flight_agent and inFlight = "Fulfilled JUndefined" and ext = example_externals
         and now = 70000 and now' = 70001 and fetch = "\<lambda>url init. Inl ''unused''",
       THEN conjunct1]
    by simp
  have r': "requestInFlight (fst (run example_externals example_agent
      [Step_checkForUpdate_call 0, Step_tryUpdate_request 0])) = Some (Fulfilled JUndefined)"
    using r m by (simp only:)
  show ?thesis
    unfolding k using c r' i by (simp only: fst_conv snd_conv simp_thms)
qed

text \<open>
  The claim as first stated has the suppressed caller see the result of the check in
  flight. Here the request of that check fails: its caller's promise is rejected, and the
  suppressed caller's promise was fulfilled with \<^verbatim>\<open>undefined\<close>.
\<close>

theorem checkForUpdate_same_result_counterexample:
  "requestInFlight in_flight_agent = Some Promise_resolve \<and>
   fst (checkForUpdate example_externals 1 (\<lambda>url init. Inl ''socket hang up'') 2 in_flight_agent) =
     Fulfilled JUndefined \<and>
   fst (checkForUpdate_settle 3
          (fst (tryUpdate_response example_externals (Inl ''socket hang up'') in_flight_agent))
          (fst (snd (tryUpdate_response example_externals (Inl ''socket hang up'') in_flight_agent)))) =
     Rejected (Unable_to_fetch ''socket hang up'')"
  by (simp add: in_flight_agent_eq agent_defs example_defs)

subsection \<open>The staleness warning\<close>

text \<open>
  Claim C5 says that an agent with no successful check yet counts as infinitely stale
  and warns on every call. The code returns \<^verbatim>\<open>-Infinity\<close> for the time since the
  last success, which is greater than no threshold: before the first success
  \<^verbatim>\<open>warnWhenLossOfSync\<close> never warns, and \<^verbatim>\<open>checkForUpdate\<close> begins with no
  effect.
\<close>

theorem warnWhenLossOfSync_before_first_success:
  "lastSuccessfulCheck a = None \<longrightarrow>
     timeSinceLastSuccessfulCheck now a = Neg_Infinity \<and>
     warnWhenLossOfSync now a = [] \<and>
     snd (snd (checkForUpdate_call now a)) = []"
  by (simp add: timeSinceLastSuccessfulCheck_def warnWhenLossOfSync_def checkForUpdate_call_def
        split: option.splits)

theorem warnWhenLossOfSync_before_first_success_witness:
  "lastSuccessfulCheck example_agent = None \<and>
   warnWhenLossOfSync 1000000000 example_agent = [] \<and>
   warnWhenLossOfSync 1000000000 (example_agent\<lparr>lastSuccessfulCheck := Some 0\<rparr>) =
     [Console_warn (Msg_loss_of_sync (Some 0))]"
proof -
  have n: "lastSuccessfulCheck example_agent = None" by (simp add: example_agent_def)
  have w: "warnWhenLossOfSync 1000000000 (example_agent\<lparr>lastSuccessfulCheck := Some 0\<rparr>) =
     [Console_warn (Msg_loss_of_sync (Some 0))]"
    by (simp add: agent_defs example_defs)
  show ?thesis
    using n w warnWhenLossOfSync_before_first_success [of example_agent 1000000000] by simp
qed

subsection \<open>A response that is not modified\<close>

lemma tryUpdate_request_marker:
  "tryUpdate_request ext (a\<lparr>requestInFlight := p\<rparr>) =
   (case tryUpdate_request ext a of (r, a1, es) \<Rightarrow> (r, a1\<lparr>requestInFlight := p\<rparr>, es))"
  by (simp add: tryUpdate_request_def getHashedServiceId_def Let_def pollSecondsOf_def maybeLog_def
        split: sum.splits option.splits)

lemma tryUpdate_request_frame:
  "fst (tryUpdate_request ext a) = Inr (url, init) \<Longrightarrow>
   fst (snd (tryUpdate_request ext a)) =
     a\<lparr>hashedServiceId := hashedServiceId (fst (snd (tryUpdate_request ext a))),
       timesChecked := Suc (timesChecked a)\<rparr> \<and>
   filter is_cache_call (snd (snd (tryUpdate_request ext a))) = []"
  by (auto simp: tryUpdate_request_def getHashedServiceId_def Let_def maybeLog_def
        split: sum.splits option.splits if_splits)

lemma tryUpdate_response_304:
  "status response = 304 \<Longrightarrow>
   tryUpdate_response ext (Inr response) a = (Inr False, a, maybeLog a Msg_same)"
  by (simp add: tryUpdate_response_def)

lemma tryUpdate_304:
  assumes "fst (tryUpdate_request ext a) = Inr (url, init)"
    and "fetch url init = Inr response"
    and "status response = 304"
  shows "tryUpdate ext fetch a =
     (Inr False, fst (snd (tryUpdate_request ext a)),
      snd (snd (tryUpdate_request ext a)) @ maybeLog (fst (snd (tryUpdate_request ext a))) Msg_same)"
proof -
  obtain a1 es where r: "tryUpdate_request ext a = (Inr (url, init), a1, es)"
    using assms(1) by (cases "tryUpdate_request ext a") auto
  show ?thesis
    unfolding tryUpdate_def r using assms(2,3) by (simp add: tryUpdate_response_304)
qed

text \<open>
  Claim C6, amended. When the request that \<^verbatim>\<open>tryUpdate\<close> makes is answered with
  status 304, \<^verbatim>\<open>tryUpdate\<close> returns false; the known signatures and the stored ETag
  are as before, no call is made on the cache, which is as before, and a
  \<^verbatim>\<open>checkForUpdate\<close> that begins this check is fulfilled with false. The agent is not
  as before: the counter of checks is one higher and the hash of the service identifier
  may have been stored; every other field is unchanged.
\<close>

theorem tryUpdate_not_modified:
  assumes "fst (tryUpdate_request ext a) = Inr (url, init)"
    and "fetch url init = Inr response"
    and "status response = 304"
  shows "fst (tryUpdate ext fetch a) = Inr False \<and>
         lastOperationSignatures (fst (snd (tryUpdate ext fetch a))) = lastOperationSignatures a \<and>
         lastSuccessfulETag (fst (snd (tryUpdate ext fetch a))) = lastSuccessfulETag a \<and>
         filter is_cache_call (snd (snd (tryUpdate ext fetch a))) = [] \<and>
         apply_effects c (snd (snd (tryUpdate ext fetch a))) = c \<and>
         timesChecked (fst (snd (tryUpdate ext fetch a))) = Suc (timesChecked a) \<and>
         (fst (snd (tryUpdate ext fetch a)))
           \<lparr>hashedServiceId := hashedServiceId a, timesChecked := timesChecked a\<rparr> = a \<and>
         (requestInFlight a = None \<longrightarrow>
            fst (checkForUpdate ext now fetch now' a) = Fulfilled (JBool False))"
proof -
  note t = tryUpdate_304 [where fetch = fetch, OF assms]
  note f = tryUpdate_request_frame [OF assms(1)]
  have res: "fst (tryUpdate ext fetch a) = Inr False" by (simp add: t)
  have agent: "fst (snd (tryUpdate ext fetch a)) =
     a\<lparr>hashedServiceId := hashedServiceId (fst (snd (tryUpdate_request ext a))),
       timesChecked := Suc (timesChecked a)\<rparr>"
    using f by (simp add: t)
  have calls: "filter is_cache_call (snd (snd (tryUpdate ext fetch a))) = []"
    using f by (simp add: t maybeLog_def)
  have cache: "apply_effects c (snd (snd (tryUpdate ext fetch a))) = c"
    using apply_effects_filter [of c "snd (snd (tryUpdate ext fetch a))"]
    by (simp add: calls apply_effects_def)
  have check: "fst (checkForUpdate ext now fetch now' a) = Fulfilled (JBool False)"
    if "requestInFlight a = None"
  proof -
    have "fst (tryUpdate_request ext (a\<lparr>requestInFlight := Some Promise_resolve\<rparr>)) = Inr (url, init)"
      using assms(1) by (simp add: tryUpdate_request_marker case_prod_beta)
    from tryUpdate_304 [where fetch = fetch, OF this assms(2,3)] show ?thesis
      using that by (simp add: checkForUpdate_def checkForUpdate_call_def checkForUpdate_settle_def)
  qed
  have k: "lastOperationSignatures (fst (snd (tryUpdate ext fetch a))) = lastOperationSignatures a"
    by (subst agent) simp
  have e: "lastSuccessfulETag (fst (snd (tryUpdate ext fetch a))) = lastSuccessfulETag a"
    by (subst agent) simp
  have n: "timesChecked (fst (snd (tryUpdate ext fetch a))) = Suc (timesChecked a)"
    by (subst agent) simp
  have r: "(fst (snd (tryUpdate ext fetch a)))
           \<lparr>hashedServiceId := hashedServiceId a, timesChecked := timesChecked a\<rparr> = a"
    by (subst agent) simp
  show ?thesis using res k e calls cache n r check by blast
qed

lemma example_request:
  "fst (tryUpdate_request example_externals example_agent) =
     Inr (''https://manifests.example/0a1b2c/abc123'',
          \<lparr> http_method = ''GET'', timeout = 90000, if_none_match = None \<rparr>)"
  by (simp add: agent_defs example_defs example_externals_def)

theorem tryUpdate_not_modified_witness:
  "fst (tryUpdate_request example_externals example_agent) =
     Inr (''https://manifests.example/0a1b2c/abc123'',
          \<lparr> http_method = ''GET'', timeout = 90000, if_none_match = None \<rparr>) \<and>
   status response_304 = 304 \<and>
   fst (tryUpdate example_externals network_304 example_agent) = Inr False \<and>
   lastOperationSignatures (fst (snd (tryUpdate example_externals network_304 example_agent))) = [] \<and>
   lastSuccessfulETag (fst (snd (tryUpdate example_externals network_304 example_agent))) = None \<and>
   fst (checkForUpdate example_externals 5 network_304 6 example_agent) = Fulfilled (JBool False)"
proof -
  have n: "network_304 ''https://manifests.example/0a1b2c/abc123''
             \<lparr> http_method = ''GET'', timeout = 90000, if_none_match = None \<rparr> = Inr response_304"
    by (simp add: network_304_def)
  have s: "status response_304 = 304" by (simp add: response_304_def)
  have i: "requestInFlight example_agent = None" by (simp add: example_agent_def)
  show ?thesis
    using example_request s i
      tryUpdate_not_modified [where fetch = network_304 and c = Map.empty and now = 5 and now' = 6, OF example_request n s]
    by (simp add: example_agent_def)
qed

text \<open>
  The claim as first stated has \<^verbatim>\<open>tryUpdate\<close> mutate no state of the agent. On the
  example agent the counter goes from 0 to 1 and the hash is stored.
\<close>

theorem tryUpdate_not_modified_counterexample:
  "status response_304 = 304 \<and>
   fst (tryUpdate example_externals network_304 example_agent) = Inr False \<and>
   fst (snd (tryUpdate example_externals network_304 example_agent)) =
     example_agent\<lparr>hashedServiceId := Some ''0a1b2c'', timesChecked := 1\<rparr> \<and>
   fst (snd (tryUpdate example_externals network_304 example_agent)) \<noteq> example_agent \<and>
   timesChecked example_agent = 0"
  by (simp add: agent_defs example_defs example_externals_def network_304_def response_304_def)

subsection \<open>The stored ETag\<close>

lemma tryUpdate_response_true:
  assumes "fst (tryUpdate_response ext (Inr response) a) = Inr True"
    and "etag response = Some header" and "header \<noteq> []"
  shows "\<exists>tag. JSON_parse ext header = Inr tag \<and>
           lastSuccessfulETag (fst (snd (tryUpdate_response ext (Inr response) a))) = Some tag"
  using assms
  by (auto simp: tryUpdate_response_def split: if_splits sum.splits prod.splits option.splits)

lemma tryUpdate_response_parsed:
  assumes "ok response" and "unexpected_content_type (content_type response) = None"
    and "body_json response = Inr (valid_manifest ops)"
    and "etag response = Some header" and "header \<noteq> []"
    and "JSON_parse ext header = Inr tag"
  shows "fst (tryUpdate_response ext (Inr response) a) = Inr True \<and>
         lastSuccessfulETag (fst (snd (tryUpdate_response ext (Inr response) a))) = Some tag"
proof -
  have "status response \<noteq> 304" using assms(1) by (auto simp: ok_def)
  then show ?thesis
    using assms by (simp add: tryUpdate_response_def updateManifest_valid)
qed

lemma tryUpdate_after_request:
  assumes "fst (tryUpdate_request ext a) = Inr (url, init)" and "fetch url init = Inr response"
  shows "fst (tryUpdate ext fetch a) =
           fst (tryUpdate_response ext (Inr response) (fst (snd (tryUpdate_request ext a)))) \<and>
         fst (snd (tryUpdate ext fetch a)) =
           fst (snd (tryUpdate_response ext (Inr response) (fst (snd (tryUpdate_request ext a)))))"
proof -
  obtain a1 es where q: "tryUpdate_request ext a = (Inr (url, init), a1, es)"
    using assms(1) by (cases "tryUpdate_request ext a") auto
  show ?thesis
    unfolding tryUpdate_def q using assms(2) by (simp add: case_prod_beta)
qed

text \<open>
  Claim C7, amended. When \<^verbatim>\<open>tryUpdate\<close> returns true on a response with a non-empty
  \<^verbatim>\<open>ETag\<close> header, \<^verbatim>\<open>JSON.parse\<close> has accepted the header and the token the agent
  stores is the value \<^verbatim>\<open>JSON.parse\<close> returned for it, whatever \<^verbatim>\<open>JSON.parse\<close>
  computes. Conversely, on a response with a success status, an acceptable content type, a
  valid manifest and a non-empty \<^verbatim>\<open>ETag\<close> header that \<^verbatim>\<open>JSON.parse\<close> accepts,
  \<^verbatim>\<open>tryUpdate\<close> returns true and stores that value. The next request carries the
  stored token unchanged as \<^verbatim>\<open>If-None-Match\<close> when the token is truthy, and no such
  header otherwise.
\<close>

theorem tryUpdate_stores_parsed_etag:
  "(fst (tryUpdate_request ext a) = Inr (url, init) \<and> fetch url init = Inr response \<and>
    fst (tryUpdate ext fetch a) = Inr True \<and> etag response = Some header \<and> header \<noteq> [] \<longrightarrow>
      (\<exists>tag. JSON_parse ext header = Inr tag \<and>
         lastSuccessfulETag (fst (snd (tryUpdate ext fetch a))) = Some tag)) \<and>
   (fst (tryUpdate_request ext a) = Inr (url, init) \<and> fetch url init = Inr response \<and>
    ok response \<and> unexpected_content_type (content_type response) = None \<and>
    body_json response = Inr (valid_manifest ops) \<and>
    etag response = Some header \<and> header \<noteq> [] \<and> JSON_parse ext header = Inr tag \<longrightarrow>
      fst (tryUpdate ext fetch a) = Inr True \<and>
      lastSuccessfulETag (fst (snd (tryUpdate ext fetch a))) = Some tag) \<and>
   (lastSuccessfulETag b = Some tag' \<and> fst (tryUpdate_request ext b) = Inr (url', init') \<longrightarrow>
      if_none_match init' = (if truthy tag' then Some tag' else None))"
proof -
  have one: "\<exists>tag. JSON_parse ext header = Inr tag \<and>
         lastSuccessfulETag (fst (snd (tryUpdate ext fetch a))) = Some tag"
    if r: "fst (tryUpdate_request ext a) = Inr (url, init)" and f: "fetch url init = Inr response"
      and t: "fst (tryUpdate ext fetch a) = Inr True" and h: "etag response = Some header" "header \<noteq> []"
  proof -
    note u = tryUpdate_after_request [where fetch = fetch, OF r f]
    have "fst (tryUpdate_response ext (Inr response) (fst (snd (tryUpdate_request ext a)))) = Inr True"
      using t u by simp
    from tryUpdate_response_true [OF this h] show ?thesis using u by simp
  qed
  have two: "fst (tryUpdate ext fetch a) = Inr True \<and>
      lastSuccessfulETag (fst (snd (tryUpdate ext fetch a))) = Some tag"
    if r: "fst (tryUpdate_request ext a) = Inr (url, init)" and f: "fetch url init = Inr response"
      and p: "ok response" "unexpected_content_type (content_type response) = None"
        "body_json response = Inr (valid_manifest ops)"
        "etag response = Some header" "header \<noteq> []" "JSON_parse ext header = Inr tag"
    using tryUpdate_after_request [where fetch = fetch, OF r f]
      tryUpdate_response_parsed [OF p, of "fst (snd (tryUpdate_request ext a))"]
    by simp
  have three: "if_none_match init' = (if truthy tag' then Some tag' else None)"
    if "lastSuccessfulETag b = Some tag'" "fst (tryUpdate_request ext b) = Inr (url', init')"
    using that
    by (auto simp: tryUpdate_request_def getHashedServiceId_def Let_def
          split: sum.splits option.splits if_splits)
  show ?thesis using one two three by blast
qed

lemma example_JSON_parse:
  "JSON_parse example_externals [CHR 0x22, CHR ''a'', CHR ''b'', CHR ''c'', CHR 0x22] =
     Inr (JStr ''abc'')"
  by (simp add: example_externals_def JSON_parse_string_literal_def is_ws_def prepend_def)

lemma tryUpdate_tagged:
  "tryUpdate example_externals network_tagged example_agent =
     (Inr True,
      example_agent\<lparr>hashedServiceId := Some ''0a1b2c'', timesChecked := 1,
        lastSuccessfulETag := Some (JStr ''abc''), lastOperationSignatures := [''a'']\<rparr>,
      [Console_debug (Msg_checking ''https://manifests.example/0a1b2c/abc123''),
       Fetch ''https://manifests.example/0a1b2c/abc123''
         \<lparr> http_method = ''GET'', timeout = 90000, if_none_match = None \<rparr>,
       Console_debug (Msg_adds ''a''), Cache_set ''apq:a'' ''docA''])"
  by (simp add: agent_defs example_defs example_externals_def network_tagged_def response_tagged_def
        ok_def JSON_parse_string_literal_def is_ws_def prepend_def)

lemma example_request_tagged:
  "fst (tryUpdate_request example_externals
         (fst (snd (tryUpdate example_externals network_tagged example_agent)))) =
     Inr (''https://manifests.example/0a1b2c/abc123'',
          \<lparr> http_method = ''GET'', timeout = 90000, if_none_match = Some (JStr ''abc'') \<rparr>)"
  unfolding tryUpdate_tagged
  by (simp add: tryUpdate_request_def getHashedServiceId_def pollSecondsOf_def
        DEFAULT_POLL_SECONDS_def Let_def example_defs example_externals_def)

theorem tryUpdate_stores_parsed_etag_witness:
  "fst (tryUpdate example_externals network_tagged example_agent) = Inr True \<and>
   etag response_tagged = Some [CHR 0x22, CHR ''a'', CHR ''b'', CHR ''c'', CHR 0x22] \<and>
   JSON_parse example_externals [CHR 0x22, CHR ''a'', CHR ''b'', CHR ''c'', CHR 0x22] =
     Inr (JStr ''abc'') \<and>
   lastSuccessfulETag (fst (snd (tryUpdate example_externals network_tagged example_agent))) =
     Some (JStr ''abc'') \<and>
   fst (tryUpdate_request example_externals
         (fst (snd (tryUpdate example_externals network_tagged example_agent)))) =
     Inr (''https://manifests.example/0a1b2c/abc123'',
          \<lparr> http_method = ''GET'', timeout = 90000, if_none_match = Some (JStr ''abc'') \<rparr>)"
proof -
  have n: "network_tagged ''https://manifests.example/0a1b2c/abc123''
             \<lparr> http_method = ''GET'', timeout = 90000, if_none_match = None \<rparr> = Inr response_tagged"
    by (simp add: network_tagged_def)
  have e: "etag response_tagged = Some [CHR 0x22, CHR ''a'', CHR ''b'', CHR ''c'', CHR 0x22]"
    by (simp add: response_tagged_def)
  have h: "[CHR 0x22, CHR ''a'', CHR ''b'', CHR ''c'', CHR 0x22] \<noteq> []" by simp
  have o: "ok response_tagged" by (simp add: ok_def response_tagged_def)
  have c: "unexpected_content_type (content_type response_tagged) = None"
    by (simp add: unexpected_content_type_def response_tagged_def)
  have b: "body_json response_tagged = Inr (valid_manifest [operation_a])"
    by (simp add: response_tagged_def)
  have ts: "fst (tryUpdate example_externals network_tagged example_agent) = Inr True \<and>
      lastSuccessfulETag (fst (snd (tryUpdate example_externals network_tagged example_agent))) =
        Some (JStr ''abc'')"
    using example_request n o c b e h example_JSON_parse
      tryUpdate_stores_parsed_etag [where ext = example_externals and a = example_agent
        and fetch = network_tagged and response = response_tagged
        and url = "''https://manifests.example/0a1b2c/abc123''"
        and init = "\<lparr> http_method = ''GET'', timeout = 90000, if_none_match = None \<rparr>"
        and header = "[CHR 0x22, CHR ''a'', CHR ''b'', CHR ''c'', CHR 0x22]"
        and ops = "[operation_a]" and tag = "JStr ''abc''",
        THEN conjunct2, THEN conjunct1]
    by (simp only: simp_thms)
  have "if_none_match \<lparr> http_method = ''GET'', timeout = 90000, if_none_match = Some (JStr ''abc'') \<rparr> =
          (if truthy (JStr ''abc'') then Some (JStr ''abc'') else None)"
    using ts example_request_tagged
      tryUpdate_stores_parsed_etag [where ext = example_externals
        and b = "fst (snd (tryUpdate example_externals network_tagged example_agent))"
        and tag' = "JStr ''abc''"
        and url' = "''https://manifests.example/0a1b2c/abc123''"
        and init' = "\<lparr> http_method = ''GET'', timeout = 90000, if_none_match = Some (JStr ''abc'') \<rparr>",
        THEN conjunct2, THEN conjunct2]
    by (simp only: simp_thms)
  show ?thesis using ts e example_JSON_parse example_request_tagged by (simp only: simp_thms)
qed

text \<open>
  The claim as first stated has the agent store the header as received. For the header
  \<^verbatim>\<open>"abc"\<close>, five characters with its quotes, \<^verbatim>\<open>JSON.parse\<close> returns the three
  characters \<^verbatim>\<open>abc\<close>, and these the agent stores.
\<close>

theorem tryUpdate_raw_etag_counterexample:
  "fst (tryUpdate example_externals network_tagged example_agent) = Inr True \<and>
   etag response_tagged = Some [CHR 0x22, CHR ''a'', CHR ''b'', CHR ''c'', CHR 0x22] \<and>
   JSON_parse example_externals [CHR 0x22, CHR ''a'', CHR ''b'', CHR ''c'', CHR 0x22] =
     Inr (JStr ''abc'') \<and>
   lastSuccessfulETag (fst (snd (tryUpdate example_externals network_tagged example_agent))) =
     Some (JStr ''abc'') \<and>
   JStr ''abc'' \<noteq> JStr [CHR 0x22, CHR ''a'', CHR ''b'', CHR ''c'', CHR 0x22]"
  by (simp add: tryUpdate_tagged response_tagged_def example_JSON_parse)

subsection \<open>Construction\<close>

lemma getProp_string_object:
  "getProp v k = Inr (JStr s) \<Longrightarrow> typeof v = ''object''"
  by (cases v) (auto split: option.splits)

text \<open>
  Claim C8, amended. The constructor fails exactly when the schema hash is missing or
  empty, or the engine is not an object whose \<^verbatim>\<open>serviceID\<close> is a string; and it has
  no effect on any collaborator, so it fails before any request. A \<^verbatim>\<open>serviceID\<close> that
  is the empty string is a string, and is accepted.
\<close>

theorem Agent_constructor_fails_iff:
  "((\<exists>err. fst (Agent_constructor opts) = Inl err) \<longleftrightarrow>
      schemaHash opts = None \<or> schemaHash opts = Some [] \<or>
      (\<forall>serviceID. getProp (engine opts) ''serviceID'' \<noteq> Inr (JStr serviceID))) \<and>
   snd (Agent_constructor opts) = []"
proof -
  have e: "snd (Agent_constructor opts) = []"
    by (simp add: Agent_constructor_def split: sum.splits)
  show ?thesis
  proof (cases "schemaHash opts = None \<or> schemaHash opts = Some []")
    case True
    then show ?thesis using e by (auto simp: Agent_constructor_def)
  next
    case False
    show ?thesis
    proof (cases "\<exists>serviceID. getProp (engine opts) ''serviceID'' = Inr (JStr serviceID)")
      case True
      then obtain serviceID where g: "getProp (engine opts) ''serviceID'' = Inr (JStr serviceID)"
        by blast
      have "typeof (engine opts) = ''object''" by (rule getProp_string_object [OF g])
      then have "\<exists>a. fst (Agent_constructor opts) = Inr a"
        using False g by (simp add: Agent_constructor_def)
      then show ?thesis using e False g by auto
    next
      case n: False
      have "\<exists>err. fst (Agent_constructor opts) = Inl err"
      proof (cases "getProp (engine opts) ''serviceID''")
        case (Inl err)
        then show ?thesis by (simp add: Agent_constructor_def)
      next
        case (Inr v)
        with n have "\<forall>s. v \<noteq> JStr s" by simp
        then have "typeof v \<noteq> ''string''" by (cases v) auto
        then show ?thesis using Inr by (simp add: Agent_constructor_def)
      qed
      then show ?thesis using e n by auto
    qed
  qed
qed

theorem Agent_constructor_fails_iff_witness:
  "fst (Agent_constructor (example_options\<lparr>schemaHash := Some []\<rparr>)) = Inl Schema_hash_missing \<and>
   fst (Agent_constructor (example_options\<lparr>engine := JObj []\<rparr>)) = Inl Service_id_missing \<and>
   fst (Agent_constructor (example_options\<lparr>engine := JUndefined\<rparr>)) = Inl Service_id_missing \<and>
   fst (Agent_constructor (example_options\<lparr>engine := JNull\<rparr>)) = Inl Type_error \<and>
   (\<exists>err. fst (Agent_constructor (example_options\<lparr>engine := JObj [(''serviceID'', JNum (Finite 7))]\<rparr>)) = Inl err) \<and>
   Agent_constructor example_options = (Inr example_agent, [])"
proof -
  have "\<forall>serviceID. getProp (engine (example_options\<lparr>engine := JObj [(''serviceID'', JNum (Finite 7))]\<rparr>)) ''serviceID''
           \<noteq> Inr (JStr serviceID)"
    by simp
  then have "\<exists>err. fst (Agent_constructor (example_options\<lparr>engine := JObj [(''serviceID'', JNum (Finite 7))]\<rparr>)) = Inl err"
    using Agent_constructor_fails_iff [of "example_options\<lparr>engine := JObj [(''serviceID'', JNum (Finite 7))]\<rparr>"]
    by blast
  then show ?thesis
    by (simp add: Agent_constructor_def example_agent_def example_options_def)
qed

text \<open>
  The claim as first stated has the constructor fail without a non-empty service
  identifier. With the empty string as \<^verbatim>\<open>serviceID\<close> it returns an agent.
\<close>

theorem Agent_constructor_empty_serviceID_counterexample:
  "getProp (engine options_empty_serviceID) ''serviceID'' = Inr (JStr []) \<and>
   Agent_constructor options_empty_serviceID =
     (Inr \<lparr> timer = None, hashedServiceId = None, requestInFlight = None,
            lastSuccessfulCheck = None, timesChecked = 0, lastSuccessfulETag = None,
            lastOperationSignatures = [], options = options_empty_serviceID \<rparr>, [])"
  by (simp add: Agent_constructor_def options_empty_serviceID_def)

subsection \<open>The marker after a check\<close>

lemma settle_clears:
  "requestInFlight (snd (checkForUpdate_settle now outcome a)) = None \<and>
   fst (checkForUpdate_settle now outcome a) =
     (case outcome of Inl err \<Rightarrow> Rejected err | Inr result \<Rightarrow> Fulfilled (JBool result))"
  by (simp add: checkForUpdate_settle_def split: sum.splits)

text \<open>
  Claim C9. A call of \<^verbatim>\<open>checkForUpdate\<close> that begins a check (no marker was set)
  leaves the marker cleared when it settles, whether \<^verbatim>\<open>tryUpdate\<close> returned or
  threw; the caller's promise is fulfilled with the result or rejected with the very error
  of \<^verbatim>\<open>tryUpdate\<close>, by the handler that has cleared the marker; and a later call
  begins a check again. Under any interleaving, the step in which the request settles
  and the handlers run leaves the marker cleared.
\<close>

theorem checkForUpdate_clears_marker:
  "(requestInFlight a = None \<longrightarrow>
      requestInFlight (fst (snd (checkForUpdate ext now fetch now' a))) = None \<and>
      fst (checkForUpdate ext now fetch now' a) =
        (case fst (tryUpdate ext fetch (a\<lparr>requestInFlight := Some Promise_resolve\<rparr>)) of
           Inl err \<Rightarrow> Rejected err
         | Inr result \<Rightarrow> Fulfilled (JBool result)) \<and>
      fst (checkForUpdate_call later (fst (snd (checkForUpdate ext now fetch now' a)))) = Started) \<and>
   requestInFlight (fst (perform ext b (Step_tryUpdate_settled settled now'))) = None"
proof -
  have started: "checkForUpdate ext now fetch now' a =
      (fst (checkForUpdate_settle now' (fst (tryUpdate ext fetch (a\<lparr>requestInFlight := Some Promise_resolve\<rparr>)))
              (fst (snd (tryUpdate ext fetch (a\<lparr>requestInFlight := Some Promise_resolve\<rparr>))))),
       snd (checkForUpdate_settle now' (fst (tryUpdate ext fetch (a\<lparr>requestInFlight := Some Promise_resolve\<rparr>)))
              (fst (snd (tryUpdate ext fetch (a\<lparr>requestInFlight := Some Promise_resolve\<rparr>))))),
       warnWhenLossOfSync now a @ snd (snd (tryUpdate ext fetch (a\<lparr>requestInFlight := Some Promise_resolve\<rparr>))))"
    if "requestInFlight a = None"
    using that by (simp add: checkForUpdate_def checkForUpdate_call_def case_prod_beta)
  have one: "requestInFlight (fst (snd (checkForUpdate ext now fetch now' a))) = None"
    if "requestInFlight a = None"
    by (simp add: started [OF that] settle_clears)
  have two: "fst (checkForUpdate ext now fetch now' a) =
        (case fst (tryUpdate ext fetch (a\<lparr>requestInFlight := Some Promise_resolve\<rparr>)) of
           Inl err \<Rightarrow> Rejected err
         | Inr result \<Rightarrow> Fulfilled (JBool result))"
    if "requestInFlight a = None"
    by (simp add: started [OF that] settle_clears)
  have three: "fst (checkForUpdate_call later (fst (snd (checkForUpdate ext now fetch now' a)))) = Started"
    if "requestInFlight a = None"
    using one [OF that] by (simp add: checkForUpdate_call_def)
  have four: "requestInFlight (fst (perform ext b (Step_tryUpdate_settled settled now'))) = None"
    by (simp add: case_prod_beta settle_clears)
  show ?thesis using one two three four by blast
qed

theorem checkForUpdate_clears_marker_witness:
  "requestInFlight example_agent = None \<and>
   fst (checkForUpdate example_externals 5 network_down 6 example_agent) =
     Rejected (Unable_to_fetch ''socket hang up'') \<and>
   requestInFlight (fst (snd (checkForUpdate example_externals 5 network_down 6 example_agent))) = None \<and>
   fst (checkForUpdate example_externals 5 network_304 6 example_agent) = Fulfilled (JBool False) \<and>
   requestInFlight (fst (snd (checkForUpdate example_externals 5 network_304 6 example_agent))) = None \<and>
   fst (checkForUpdate_call 7 (fst (snd (checkForUpdate example_externals 5 network_down 6 example_agent)))) =
     Started"
proof -
  have i: "requestInFlight example_agent = None" by (simp add: example_agent_def)
  have d: "fst (tryUpdate example_externals network_down (example_agent\<lparr>requestInFlight := Some Promise_resolve\<rparr>)) =
             Inl (Unable_to_fetch ''socket hang up'')"
    by (simp add: agent_defs example_defs example_externals_def network_down_def)
  have n: "fst (tryUpdate example_externals network_304 (example_agent\<lparr>requestInFlight := Some Promise_resolve\<rparr>)) =
             Inr False"
    by (simp add: agent_defs example_defs example_externals_def network_304_def response_304_def)
  show ?thesis
    using i d n
      checkForUpdate_clears_marker [where a = example_agent and ext = example_externals
        and fetch = network_down and now = 5 and now' = 6 and later = 7]
      checkForUpdate_clears_marker [where a = example_agent and ext = example_externals
        and fetch = network_304 and now = 5 and now' = 6 and later = 7]
    by simp
qed

subsection \<open>The interval timer\<close>




























end
